theory Spec2Isabelle
  imports Complex_Main "HOL-Library.Multiset"
begin

section \<open>JavaScript values and arrays\<close>

text \<open>
  Board cells and marker-board cells are JavaScript values: a string token, \<open>null\<close>
  (the empty marker of an action array) or \<open>undefined\<close> (what reading an array past
  its end, or reading a hole of \<open>new Array(9)\<close>, yields).
\<close>

datatype jsval = Undefined | Null | Str string

datatype error = InvalidActionError | InvalidChar | MisalignedPlayerError | TypeError | UndefinedRead

text \<open>\<open>arr[i]\<close>: an index past the end reads \<open>undefined\<close>.\<close>

definition js_at :: "jsval list \<Rightarrow> nat \<Rightarrow> jsval" where
  "js_at arr i = (if i < length arr then arr ! i else Undefined)"

text \<open>\<open>arr[i]\<close> for a list of numbers, where the caller needs the number itself.\<close>

definition nth_opt :: "'a list \<Rightarrow> int \<Rightarrow> 'a option" where
  "nth_opt arr i = (if 0 \<le> i \<and> i < int (length arr) then Some (arr ! nat i) else None)"

text \<open>
  The remainder operator \<open>%\<close> of JavaScript truncates towards zero: the result has the
  sign of the dividend (\<open>-7 % 4 = -3\<close>).
\<close>

definition js_rem :: "int \<Rightarrow> int \<Rightarrow> int" where
  "js_rem a b = sgn a * (\<bar>a\<bar> mod \<bar>b\<bar>)"

section \<open>game.js: the board model\<close>

record game =
  nll :: string
  state :: "jsval list"
  currentPlayer :: string
  stateHistory :: "jsval list list"
  actionHistory :: "nat list"

text \<open>The constructor, with \<open>buttons = null\<close> (the page's buttons are not modelled).\<close>

definition TicTacToe :: "string \<Rightarrow> error + game" where
  "TicTacToe n =
     (if length n \<noteq> 1 then Inl InvalidChar
      else Inr \<lparr> nll = n,
                 state = replicate 9 (Str n),
                 currentPlayer = ''X'',
                 stateHistory = [replicate 9 (Str n)],
                 actionHistory = [] \<rparr>)"

definition unroll :: "nat \<Rightarrow> nat \<Rightarrow> nat" where
  "unroll row col = row * 3 + col"

text \<open>
  \<open>toActionArray(index)\<close> with the defaults \<open>placeholder = 'A'\<close>, \<open>empty = null\<close>.
  An assignment past the end extends a JavaScript array, the cells between reading
  \<open>undefined\<close>.
\<close>

definition toActionArray :: "nat \<Rightarrow> jsval list" where
  "toActionArray index =
     (if index < 9 then (replicate 9 Null)[index := Str ''A'']
      else replicate 9 Null @ replicate (index - 9) Undefined @ [Str ''A''])"

text \<open>
  \<open>toActionIndex(actionArray)\<close> with \<open>empty = null\<close>: the index of the first element
  with \<open>elem != null\<close>. The loose comparison holds \<open>undefined\<close> equal to \<open>null\<close>, so
  only a string counts. The result \<open>None\<close> is the source's \<open>null\<close>.
\<close>

fun is_empty_mark :: "jsval \<Rightarrow> bool" where
  "is_empty_mark (Str s) = False"
| "is_empty_mark Null = True"
| "is_empty_mark Undefined = True"

fun toActionIndex_from :: "nat \<Rightarrow> jsval list \<Rightarrow> nat option" where
  "toActionIndex_from i [] = None"
| "toActionIndex_from i (elem # rest) =
     (if \<not> is_empty_mark elem then Some i else toActionIndex_from (Suc i) rest)"

definition toActionIndex :: "jsval list \<Rightarrow> nat option" where
  "toActionIndex actionArray = toActionIndex_from 0 actionArray"

text \<open>
  \<open>rot90(state, n)\<close>. The argument \<open>n\<close> is \<open>None\<close> when the caller leaves it out:
  then \<open>n % 4\<close> is \<open>NaN\<close>, no branch is taken and the fresh empty array is returned.
  The same happens for a negative \<open>n\<close> that is not a multiple of four.
\<close>

definition rot90 :: "jsval list \<Rightarrow> int option \<Rightarrow> jsval list" where
  "rot90 st n =
     (case n of
        None \<Rightarrow> []
      | Some k \<Rightarrow>
          if js_rem k 4 = 0 then st
          else if js_rem k 4 = 1 then
            [js_at st 6, js_at st 3, js_at st 0,
             js_at st 7, js_at st 4, js_at st 1,
             js_at st 8, js_at st 5, js_at st 2]
          else if js_rem k 4 = 2 then
            [js_at st 8, js_at st 7, js_at st 6,
             js_at st 5, js_at st 4, js_at st 3,
             js_at st 2, js_at st 1, js_at st 0]
          else if js_rem k 4 = 3 then
            [js_at st 2, js_at st 5, js_at st 8,
             js_at st 1, js_at st 4, js_at st 7,
             js_at st 0, js_at st 3, js_at st 6]
          else [])"

text \<open>
  \<open>mirror(state)\<close>: the two nested loops over \<open>i\<close> and \<open>j\<close>, writing into
  \<open>new Array(9)\<close>.
\<close>

definition mirror_inner :: "jsval list \<Rightarrow> nat \<Rightarrow> jsval list \<Rightarrow> jsval list" where
  "mirror_inner st i newState =
     foldl (\<lambda>ns j. ns[unroll i (2 - j) := js_at st (unroll i j)]) newState [0, 1, 2]"

definition mirror :: "jsval list \<Rightarrow> jsval list" where
  "mirror st = foldl (\<lambda>ns i. mirror_inner st i ns) (replicate 9 Undefined) [0, 1, 2]"

subsection \<open>Terminal outcome\<close>

text \<open>
  \<open>checkTermination()\<close> keeps four diagonal flags and the draw flag across the outer
  loop, and four row/column flags per outer iteration. It returns from inside the
  outer loop as soon as row or column \<open>i\<close> is won.
\<close>

record diag_flags =
  tlX :: bool
  trX :: bool
  tlO :: bool
  trO :: bool
  draw :: bool

record line_flags =
  rowX :: bool
  colX :: bool
  rowO :: bool
  colO :: bool

definition diag_step :: "jsval list \<Rightarrow> nat \<Rightarrow> diag_flags \<Rightarrow> diag_flags" where
  "diag_step st i d =
     (let d1 = (if js_at st (unroll i i) \<noteq> Str ''X'' then d\<lparr>tlX := False\<rparr> else d);
          d2 = (if js_at st (unroll i i) \<noteq> Str ''O'' then d1\<lparr>tlO := False\<rparr> else d1);
          d3 = (if js_at st (unroll i (2 - i)) \<noteq> Str ''X'' then d2\<lparr>trX := False\<rparr> else d2);
          d4 = (if js_at st (unroll i (2 - i)) \<noteq> Str ''O'' then d3\<lparr>trO := False\<rparr> else d3)
      in d4)"

definition cell_step ::
  "string \<Rightarrow> jsval list \<Rightarrow> nat \<Rightarrow> line_flags \<times> diag_flags \<Rightarrow> nat \<Rightarrow> line_flags \<times> diag_flags" where
  "cell_step n st i acc j =
     (let (l, d) = acc;
          l1 = (if js_at st (unroll i j) \<noteq> Str ''X'' then l\<lparr>rowX := False\<rparr> else l);
          l2 = (if js_at st (unroll i j) \<noteq> Str ''O'' then l1\<lparr>rowO := False\<rparr> else l1);
          d1 = (if js_at st (unroll i j) = Str n then d\<lparr>draw := False\<rparr> else d);
          l3 = (if js_at st (unroll j i) \<noteq> Str ''X'' then l2\<lparr>colX := False\<rparr> else l2);
          l4 = (if js_at st (unroll j i) \<noteq> Str ''O'' then l3\<lparr>colO := False\<rparr> else l3)
      in (l4, d1))"

text \<open>The outer loop; \<open>Inl\<close> is the early return of a row or column winner.\<close>

fun outer_loop :: "string \<Rightarrow> jsval list \<Rightarrow> nat list \<Rightarrow> diag_flags \<Rightarrow> string + diag_flags" where
  "outer_loop n st [] d = Inr d"
| "outer_loop n st (i # is) d =
     (let d1 = diag_step st i d;
          (l, d2) = foldl (cell_step n st i)
                      (\<lparr>rowX = True, colX = True, rowO = True, colO = True\<rparr>, d1) [0, 1, 2]
      in if rowX l \<or> colX l then Inl ''X''
         else if rowO l \<or> colO l then Inl ''O''
         else outer_loop n st is d2)"

definition checkTermination_state :: "string \<Rightarrow> jsval list \<Rightarrow> string" where
  "checkTermination_state n st =
     (case outer_loop n st [0, 1, 2]
             \<lparr>tlX = True, trX = True, tlO = True, trO = True, draw = True\<rparr> of
        Inl winner \<Rightarrow> winner
      | Inr d \<Rightarrow>
          if tlX d \<or> trX d then ''X''
          else if tlO d \<or> trO d then ''O''
          else if draw d then ''draw''
          else '''')"

text \<open>
  \<open>checkTermination()\<close> declares no parameter and reads \<open>this.state\<close>; callers that
  pass a horizon (rewards.js, the agents) have it ignored, which the second argument of
  the model records.
\<close>

definition checkTermination :: "game \<Rightarrow> nat option \<Rightarrow> string" where
  "checkTermination g horizon = checkTermination_state (nll g) (state g)"

subsection \<open>Moves and legal actions\<close>

text \<open>
  \<open>move(index)\<close> returns the game as the call leaves it together with the exception
  thrown, if any. The three checks come before the first assignment.
\<close>

definition move :: "game \<Rightarrow> int \<Rightarrow> error option \<times> game" where
  "move g index =
     (if index \<ge> 9 \<or> index < 0 then (Some InvalidActionError, g)
      else if js_at (state g) (nat index) \<noteq> Str (nll g) then (Some InvalidActionError, g)
      else if checkTermination g None \<noteq> '''' then (Some InvalidActionError, g)
      else
        let g1 = g\<lparr>state := (state g)[nat index := Str (currentPlayer g)]\<rparr>;
            g2 = g1\<lparr>currentPlayer := (if currentPlayer g1 = ''X'' then ''O'' else ''X'')\<rparr>;
            g3 = g2\<lparr>actionHistory := actionHistory g2 @ [nat index]\<rparr>;
            g4 = g3\<lparr>stateHistory := stateHistory g3 @ [state g3]\<rparr>
        in (None, g4))"

text \<open>
  \<open>getValidActions()\<close> declares no parameter either: the horizon the agents pass is
  ignored and the loop reads \<open>this.state\<close>.
\<close>

definition getValidActions :: "game \<Rightarrow> nat option \<Rightarrow> nat list" where
  "getValidActions g horizon = filter (\<lambda>i. js_at (state g) i = Str (nll g)) [0..<9]"

text \<open>Playing a list of moves from a fresh game, stopping at the first exception.\<close>

fun play :: "game \<Rightarrow> int list \<Rightarrow> error + game" where
  "play g [] = Inr g"
| "play g (index # rest) =
     (case move g index of
        (Some e, _) \<Rightarrow> Inl e
      | (None, g') \<Rightarrow> play g' rest)"

section \<open>agent.js: table keys\<close>

text \<open>
  The action-value table \<open>Q\<close> is a \<open>Map\<close> from key strings to numbers. Numbers are
  modelled as reals (exact arithmetic).
\<close>

type_synonym qtable = "string \<rightharpoonup> real"

text \<open>A non-negative integer printed in decimal, as string concatenation prints it.\<close>

definition digit :: "nat \<Rightarrow> char" where
  "digit d = ''0123456789'' ! d"

function decimal :: "nat \<Rightarrow> string" where
  "decimal n = (if n < 10 then [digit n] else decimal (n div 10) @ [digit (n mod 10)])"
  by pat_completeness auto
termination
  by (relation "measure id") auto

text \<open>\<open>Array.join('')\<close> prints \<open>null\<close> and \<open>undefined\<close> elements as the empty string.\<close>

fun cell_text :: "jsval \<Rightarrow> string" where
  "cell_text (Str s) = s"
| "cell_text Null = []"
| "cell_text Undefined = []"

definition join :: "jsval list \<Rightarrow> string" where
  "join arr = concat (map cell_text arr)"

text \<open>
  \<open>_hash(state, action)\<close>: the joined cells followed by the action. The action is
  \<open>None\<close> when \<open>toActionIndex\<close> returned \<open>null\<close>, which prints as \<open>null\<close>.
\<close>

definition hash :: "jsval list \<Rightarrow> nat option \<Rightarrow> string" where
  "hash st action = join st @ (case action of Some a \<Rightarrow> decimal a | None \<Rightarrow> ''null'')"

text \<open>
  The key built in the body of the first loop of \<open>getKey\<close> for rotation count \<open>n\<close>,
  and the key built in the body of the second loop. The second loop calls
  \<open>rot90(mirrorState)\<close> with no rotation count.
\<close>

definition rot_key :: "jsval list \<Rightarrow> jsval list \<Rightarrow> int \<Rightarrow> string" where
  "rot_key st actionArray n =
     (let rotArray = rot90 actionArray (Some n);
          index = toActionIndex rotArray;
          newState = rot90 st (Some n)
      in hash newState index)"

definition mirror_key :: "jsval list \<Rightarrow> jsval list \<Rightarrow> int \<Rightarrow> string" where
  "mirror_key mirrorState mirrorActionArray n =
     (let rotArray = rot90 mirrorActionArray (Some n);
          index = toActionIndex rotArray;
          newState = rot90 mirrorState None
      in hash newState index)"

text \<open>Each loop returns the first key, in the order \<open>n = 1, 2, 3\<close>, that the table has.\<close>

fun first_hit :: "qtable \<Rightarrow> string list \<Rightarrow> string option" where
  "first_hit Q [] = None"
| "first_hit Q (key # keys) = (if Q key \<noteq> None then Some key else first_hit Q keys)"

definition getKey :: "qtable \<Rightarrow> jsval list \<Rightarrow> nat \<Rightarrow> string" where
  "getKey Q st action =
     (let actionArray = toActionArray action in
      case first_hit Q (map (rot_key st actionArray) [1, 2, 3]) of
        Some key \<Rightarrow> key
      | None \<Rightarrow>
          let mirrorActionArray = mirror actionArray;
              mirrorState = mirror st
          in case first_hit Q (map (mirror_key mirrorState mirrorActionArray) [1, 2, 3]) of
               Some key \<Rightarrow> key
             | None \<Rightarrow> hash st (Some action))"

section \<open>agent.js: agents and the epsilon-greedy policy\<close>

text \<open>
  The class chain \<open>Agent\<close>, \<open>EpsilonGreedyAgent\<close>, \<open>MonteCarloAgent\<close> /
  \<open>QLearningAgent\<close> as record extensions. A field that a constructor never assigns
  stays \<open>undefined\<close>, which is \<open>None\<close> for \<open>epsilon\<close>. Both learners assign
  \<open>discount\<close>, which sits in a record of its own between them and the
  epsilon-greedy base.
\<close>

record agent =
  player :: string
  Q :: qtable
  defaultQ :: real
  countQ :: "string \<rightharpoonup> nat"

record egreedy_agent = agent +
  epsilon :: "real option"

record discounting_agent = egreedy_agent +
  discount :: real

record mc_agent = discounting_agent +
  rewards :: "real list"

record ql_agent = discounting_agent +
  alpha :: real
  agentRewards :: "real list"
  opponentRewards :: "real list"

text \<open>
  The global object of the page, which a module reaches as \<open>self\<close>; only its
  \<open>epsilon\<close> property matters here.
\<close>

record global_object =
  self_epsilon :: "real option"

text \<open>
  The constructors. \<open>EpsilonGreedyAgent\<close> runs \<open>super(player, defaultQ)\<close> and then
  \<open>self.epsilon = epsilon\<close>: the assignment goes to the global object, and the
  agent's own \<open>epsilon\<close> is left unassigned.
\<close>

definition Agent :: "string \<Rightarrow> real \<Rightarrow> agent" where
  "Agent p dq = \<lparr> player = p, Q = Map.empty, defaultQ = dq, countQ = Map.empty \<rparr>"

definition EpsilonGreedyAgent ::
  "global_object \<Rightarrow> string \<Rightarrow> real \<Rightarrow> real \<Rightarrow> egreedy_agent \<times> global_object" where
  "EpsilonGreedyAgent self p eps dq =
     (let base = Agent p dq
      in (\<lparr> player = player base, Q = Q base, defaultQ = defaultQ base, countQ = countQ base,
            epsilon = None \<rparr>,
          self\<lparr>self_epsilon := Some eps\<rparr>))"

definition MonteCarloAgent ::
  "global_object \<Rightarrow> string \<Rightarrow> real \<Rightarrow> real \<Rightarrow> real \<Rightarrow> mc_agent \<times> global_object" where
  "MonteCarloAgent self p eps disc dq =
     (let (base, self') = EpsilonGreedyAgent self p eps dq
      in (\<lparr> player = player base, Q = Q base, defaultQ = defaultQ base, countQ = countQ base,
            epsilon = epsilon base, discount = disc, rewards = [] \<rparr>,
          self'))"

definition QLearningAgent ::
  "global_object \<Rightarrow> string \<Rightarrow> real \<Rightarrow> real \<Rightarrow> real \<Rightarrow> real \<Rightarrow> ql_agent \<times> global_object" where
  "QLearningAgent self p eps disc al dq =
     (let (base, self') = EpsilonGreedyAgent self p eps dq
      in (\<lparr> player = player base, Q = Q base, defaultQ = defaultQ base, countQ = countQ base,
            epsilon = epsilon base, discount = disc, alpha = al,
            agentRewards = [], opponentRewards = [] \<rparr>,
          self'))"

text \<open>\<open>this.Q.has(key) ? this.Q.get(key) : this.defaultQ\<close>.\<close>

definition qvalue :: "'a agent_scheme \<Rightarrow> string \<Rightarrow> real" where
  "qvalue ag key = (case Q ag key of Some v \<Rightarrow> v | None \<Rightarrow> defaultQ ag)"

text \<open>
  \<open>randomChoice(arr)\<close>, with the value \<open>u\<close> that \<open>Math.random()\<close> returned
  (\<open>0 \<le> u < 1\<close>).
\<close>

definition randomChoice :: "nat list \<Rightarrow> real \<Rightarrow> nat option" where
  "randomChoice arr u = nth_opt arr \<lfloor>u * real (length arr)\<rfloor>"

text \<open>
  The running maximum \<open>maxVal\<close> starts at \<open>-Infinity\<close>. \<open>above v m c\<close> is
  \<open>v > m + c\<close> and \<open>below v m c\<close> is \<open>v < m + c\<close>, with the arithmetic of infinity.
\<close>

datatype maxval = NegInfinity | Finite real

fun above :: "real \<Rightarrow> maxval \<Rightarrow> real \<Rightarrow> bool" where
  "above v NegInfinity c = True"
| "above v (Finite m) c = (v > m + c)"

fun below :: "real \<Rightarrow> maxval \<Rightarrow> real \<Rightarrow> bool" where
  "below v NegInfinity c = False"
| "below v (Finite m) c = (v < m + c)"

definition tolerance :: real where
  "tolerance = 1 / 10000"

text \<open>
  The loop over \<open>keys.entries()\<close>, on the list of pairs of \<open>validActions[index]\<close> and
  the value of its key.
\<close>

fun best_loop :: "(nat \<times> real) list \<Rightarrow> maxval \<times> nat list \<Rightarrow> maxval \<times> nat list" where
  "best_loop [] acc = acc"
| "best_loop ((a, v) # rest) (maxVal, bestActions) =
     (if above v maxVal (- tolerance) \<and> below v maxVal tolerance
        then best_loop rest (maxVal, bestActions @ [a])
      else if above v maxVal 0
        then best_loop rest (Finite v, [a])
      else best_loop rest (maxVal, bestActions))"

text \<open>
  \<open>Math.random() < this.epsilon\<close>, for the value \<open>u\<close> of \<open>Math.random()\<close>. The
  comparison is false when \<open>epsilon\<close> is undefined.
\<close>

definition explores :: "'a egreedy_agent_scheme \<Rightarrow> real \<Rightarrow> bool" where
  "explores ag u = (case epsilon ag of Some e \<Rightarrow> u < e | None \<Rightarrow> False)"

text \<open>
  The state the policy looks at: \<open>game.state\<close> when the horizon is \<open>null\<close>, else
  \<open>game.stateHistory[horizon]\<close>, which is \<open>undefined\<close> (\<open>None\<close>) out of range.
\<close>

definition horizon_state :: "game \<Rightarrow> nat option \<Rightarrow> jsval list option" where
  "horizon_state g horizon =
     (case horizon of
        None \<Rightarrow> Some (state g)
      | Some h \<Rightarrow> nth_opt (stateHistory g) (int h))"

text \<open>
  \<open>policy(game, horizon)\<close> of \<open>EpsilonGreedyAgent\<close>; \<open>u1\<close> and \<open>u2\<close> are the values of
  the two calls of \<open>Math.random()\<close>. On an undefined state \<open>getKey\<close> throws a
  \<open>TypeError\<close>. The result \<open>Inr None\<close> is a returned \<open>null\<close> or \<open>undefined\<close>.
\<close>

definition policy ::
  "'a egreedy_agent_scheme \<Rightarrow> game \<Rightarrow> nat option \<Rightarrow> real \<Rightarrow> real \<Rightarrow> error + nat option" where
  "policy ag g horizon u1 u2 =
     (if horizon = None \<and> player ag \<noteq> currentPlayer g then Inl MisalignedPlayerError
      else
        let st = horizon_state g horizon;
            validActions = getValidActions g horizon
        in if length validActions = 0 then Inl InvalidActionError
           else if explores ag u1 then Inr (randomChoice validActions u2)
           else
             (case st of
                None \<Rightarrow> Inl TypeError
              | Some s \<Rightarrow>
                  let keys = map (\<lambda>action. getKey (Q ag) s action) validActions;
                      (maxVal, bestActions) =
                         best_loop (zip validActions (map (qvalue ag) keys)) (NegInfinity, [])
                  in if length bestActions > 0 then Inr (randomChoice bestActions u2)
                     else Inr None))"

section \<open>rewards.js\<close>

type_synonym rewardFunc = "game \<Rightarrow> string \<Rightarrow> nat option \<Rightarrow> real"

definition terminalOnly :: rewardFunc where
  "terminalOnly g p horizon =
     (let outcome = checkTermination g horizon
      in if outcome = p then 1
         else if outcome = ''draw'' \<or> outcome = '''' then 0
         else - 1)"

section \<open>agent.js: the learners\<close>

subsection \<open>Monte-Carlo learner\<close>

text \<open>
  The table update in the body of the backward loop of \<open>MonteCarloAgent.learn\<close>, for
  the key and the return \<open>totalReward\<close> of the current iteration.
\<close>

definition mc_update :: "mc_agent \<Rightarrow> string \<Rightarrow> real \<Rightarrow> mc_agent" where
  "mc_update ag key totalReward =
     (let q = qvalue ag key;
          n = (case countQ ag key of Some c \<Rightarrow> c | None \<Rightarrow> 0)
      in ag\<lparr> Q := (Q ag)(key \<mapsto> q * real n / (real n + 1) + totalReward / (real n + 1)),
              countQ := (countQ ag)(key \<mapsto> n + 1) \<rparr>)"

text \<open>
  The backward loop \<open>for (let i = end - 1; i >= 0; i -= 2)\<close> with the reward index
  \<open>j\<close>. A state read out of range makes \<open>getKey\<close> throw a \<open>TypeError\<close>. Where the
  source would go on with an \<open>undefined\<close> action or reward (and store \<open>NaN\<close>), the
  model stops with \<open>UndefinedRead\<close>.
\<close>

function mc_loop :: "mc_agent \<Rightarrow> game \<Rightarrow> int \<Rightarrow> int \<Rightarrow> real \<Rightarrow> error option \<times> mc_agent" where
  "mc_loop ag g i j totalReward =
     (if i \<ge> 0 then
        (case nth_opt (stateHistory g) i of
           None \<Rightarrow> (Some TypeError, ag)
         | Some s \<Rightarrow>
             (case nth_opt (actionHistory g) i of
                None \<Rightarrow> (Some UndefinedRead, ag)
              | Some a \<Rightarrow>
                  (case nth_opt (rewards ag) j of
                     None \<Rightarrow> (Some UndefinedRead, ag)
                   | Some r \<Rightarrow>
                       mc_loop (mc_update ag (getKey (Q ag) s a) (r + discount ag * totalReward))
                         g (i - 2) (j - 1) (r + discount ag * totalReward))))
      else (None, ag))"
  by pat_completeness auto
termination
  by (relation "measure (\<lambda>(ag, g, i, j, totalReward). nat (i + 1))") auto

definition MonteCarloAgent_learn :: "mc_agent \<Rightarrow> game \<Rightarrow> rewardFunc \<Rightarrow> error option \<times> mc_agent" where
  "MonteCarloAgent_learn ag g rewardFunc =
     (let reward = rewardFunc g (currentPlayer g) (Some (length (stateHistory g)));
          ag1 = ag\<lparr>rewards := rewards ag @ [reward]\<rparr>;
          outcome = checkTermination g None
      in if outcome \<noteq> '''' then
           let len = int (length (stateHistory g));
               condition = (player ag1 = ''X'' \<and> js_rem len 2 = 0) \<or>
                           (player ag1 = ''O'' \<and> js_rem len 2 \<noteq> 0);
               e = (if condition then len - 1 else len - 2);
               j = int (length (rewards ag1)) - 1
           in case mc_loop ag1 g (e - 1) j 0 of
                (Some err, ag2) \<Rightarrow> (Some err, ag2)
              | (None, ag2) \<Rightarrow> (None, ag2\<lparr>rewards := []\<rparr>)
         else (None, ag1))"

subsection \<open>Q-learning learner\<close>

text \<open>
  \<open>Math.random()\<close> is a stream \<open>rnd\<close> of values in \<open>[0, 1)\<close> read at a position that
  each call advances; one call of \<open>policy\<close> reads two values. Every function returns
  the exception thrown, if any, with the agent as the call leaves it.

  The loop \<open>for (let i = start; i < end; i += 2)\<close> of \<open>updateQ\<close>.
\<close>

function updateQ_loop ::
  "ql_agent \<Rightarrow> game \<Rightarrow> string \<Rightarrow> rewardFunc \<Rightarrow> (nat \<Rightarrow> real) \<Rightarrow> nat \<Rightarrow> int \<Rightarrow> int
     \<Rightarrow> error option \<times> ql_agent \<times> nat" where
  "updateQ_loop ag g playerChoice rewardFunc rnd pos e i =
     (if i < e then
        (case nth_opt (stateHistory g) i of
           None \<Rightarrow> (Some TypeError, ag, pos)
         | Some s \<Rightarrow>
             (case nth_opt (actionHistory g) i of
                None \<Rightarrow> (Some UndefinedRead, ag, pos)
              | Some a \<Rightarrow>
                  (case policy ag g (Some (nat (i + 2))) (rnd pos) (rnd (pos + 1)) of
                     Inl err \<Rightarrow> (Some err, ag, pos + 2)
                   | Inr None \<Rightarrow> (Some UndefinedRead, ag, pos + 2)
                   | Inr (Some futureAction) \<Rightarrow>
                       (case nth_opt (stateHistory g) (i + 2) of
                          None \<Rightarrow> (Some TypeError, ag, pos + 2)
                        | Some s2 \<Rightarrow>
                            updateQ_loop
                              (ag\<lparr> Q := (Q ag)(getKey (Q ag) s a \<mapsto>
                                    qvalue ag (getKey (Q ag) s a)
                                    + alpha ag * (rewardFunc g playerChoice (Some (nat (i + 2)))
                                        + discount ag * qvalue ag (getKey (Q ag) s2 futureAction)
                                        - qvalue ag (getKey (Q ag) s a))) \<rparr>)
                              g playerChoice rewardFunc rnd (pos + 2) e (i + 2)))))
      else (None, ag, pos))"
  by pat_completeness auto
termination
  by (relation "measure (\<lambda>(ag, g, playerChoice, rewardFunc, rnd, pos, e, i). nat (e - i))") auto

definition updateQ ::
  "ql_agent \<Rightarrow> game \<Rightarrow> string \<Rightarrow> rewardFunc \<Rightarrow> (nat \<Rightarrow> real) \<Rightarrow> nat
     \<Rightarrow> error option \<times> ql_agent \<times> nat" where
  "updateQ ag g playerChoice rewardFunc rnd pos =
     (let start = (if playerChoice = ''X'' then 0 else 1);
          len = int (length (stateHistory g));
          condition = (playerChoice = ''X'' \<and> js_rem len 2 = 0) \<or>
                      (playerChoice = ''O'' \<and> js_rem len 2 \<noteq> 0);
          e = (if condition then len - 2 else len - 3)
      in case updateQ_loop ag g playerChoice rewardFunc rnd pos e start of
           (Some err, ag1, pos1) \<Rightarrow> (Some err, ag1, pos1)
         | (None, ag1, pos1) \<Rightarrow>
             let terminalReward = rewardFunc g playerChoice None
             in (case nth_opt (stateHistory g) e of
                   None \<Rightarrow> (Some TypeError, ag1, pos1)
                 | Some s \<Rightarrow>
                     (case nth_opt (actionHistory g) e of
                        None \<Rightarrow> (Some UndefinedRead, ag1, pos1)
                      | Some a \<Rightarrow>
                          let terminalKey = getKey (Q ag1) s a;
                              terminalQ = qvalue ag1 terminalKey
                          in (None,
                              ag1\<lparr> Q := (Q ag1)(terminalKey \<mapsto>
                                     terminalQ + alpha ag1 * (terminalReward - terminalQ)) \<rparr>,
                              pos1))))"

definition QLearningAgent_learn ::
  "ql_agent \<Rightarrow> game \<Rightarrow> rewardFunc \<Rightarrow> (nat \<Rightarrow> real) \<Rightarrow> nat \<Rightarrow> error option \<times> ql_agent \<times> nat" where
  "QLearningAgent_learn ag g rewardFunc rnd pos =
     (let outcome = checkTermination g None
      in if outcome \<noteq> '''' then
           let storeEpsilon = epsilon ag;
               ag0 = ag\<lparr>epsilon := Some (- 1)\<rparr>
           in case updateQ ag0 g ''X'' rewardFunc rnd pos of
                (Some err, ag1, pos1) \<Rightarrow> (Some err, ag1, pos1)
              | (None, ag1, pos1) \<Rightarrow>
                  (case updateQ ag1 g ''O'' rewardFunc rnd pos1 of
                     (Some err, ag2, pos2) \<Rightarrow> (Some err, ag2, pos2)
                   | (None, ag2, pos2) \<Rightarrow> (None, ag2\<lparr>epsilon := storeEpsilon\<rparr>, pos2))
         else (None, ag, pos))"

section \<open>Vocabulary of the properties\<close>


definition owns :: "jsval list \<Rightarrow> string \<Rightarrow> nat \<times> nat \<times> nat \<Rightarrow> bool" where
  "owns st t l =
     (case l of (a, b, c) \<Rightarrow> js_at st a = Str t \<and> js_at st b = Str t \<and> js_at st c = Str t)"


definition board_full :: "string \<Rightarrow> jsval list \<Rightarrow> bool" where
  "board_full n st = list_all (\<lambda>i. js_at st i \<noteq> Str n) [0, 1, 2, 3, 4, 5, 6, 7, 8]"

text \<open>The indices of the empty cells of a board, in ascending order.\<close>

definition empty_cells :: "string \<Rightarrow> jsval list \<Rightarrow> nat list" where
  "empty_cells n st = filter (\<lambda>i. js_at st i = Str n) [0, 1, 2, 3, 4, 5, 6, 7, 8]"



text \<open>The game that \<open>new TicTacToe()\<close> builds with the default empty marker.\<close>

definition fresh :: game where
  "fresh = \<lparr> nll = ''_'',
             state = map Str [''_'', ''_'', ''_'', ''_'', ''_'', ''_'', ''_'', ''_'', ''_''],
             currentPlayer = ''X'',
             stateHistory = [map Str [''_'', ''_'', ''_'', ''_'', ''_'', ''_'', ''_'', ''_'', ''_'']],
             actionHistory = [] \<rparr>"

text \<open>
  The key of a symmetric variant of a state and an action: mirror or not, then \<open>k\<close>
  clockwise quarter turns, applied to the state and to the marker board alike. The
  eight variants are the two mirror choices times \<open>k = 0, 1, 2, 3\<close>.
\<close>

definition variant_key :: "jsval list \<Rightarrow> nat \<Rightarrow> bool \<Rightarrow> int \<Rightarrow> string" where
  "variant_key st action m k =
     hash (rot90 (if m then mirror st else st) (Some k))
       (toActionIndex
          (rot90 (if m then mirror (toActionArray action) else toActionArray action) (Some k)))"

definition variant_keys :: "jsval list \<Rightarrow> nat \<Rightarrow> string list" where
  "variant_keys st action =
     [variant_key st action False 0, variant_key st action False 1,
      variant_key st action False 2, variant_key st action False 3,
      variant_key st action True 0, variant_key st action True 1,
      variant_key st action True 2, variant_key st action True 3]"

text \<open>The table holds \<open>key\<close> and no other key of a variant of the state and action.\<close>

definition sole_variant :: "qtable \<Rightarrow> jsval list \<Rightarrow> nat \<Rightarrow> string \<Rightarrow> bool" where
  "sole_variant tbl st action key =
     (tbl key \<noteq> None \<and> list_all (\<lambda>v. tbl v \<noteq> None \<longrightarrow> v = key) (variant_keys st action))"

text \<open>
  Every key of the table has the length of a hashed board: nine one-character cells and
  the action digit.
\<close>

definition full_keys :: "qtable \<Rightarrow> bool" where
  "full_keys tbl = (\<forall>key. tbl key \<noteq> None \<longrightarrow> length key = 10)"

text \<open>
  A sequence of Monte-Carlo table updates, each with its key and return, applied in
  order; and the returns in it that were applied to one key.
\<close>

definition mc_updates :: "mc_agent \<Rightarrow> (string \<times> real) list \<Rightarrow> mc_agent" where
  "mc_updates ag ups = foldl (\<lambda>a (key, g). mc_update a key g) ag ups"

definition returns_of :: "string \<Rightarrow> (string \<times> real) list \<Rightarrow> real list" where
  "returns_of key ups = map snd (filter (\<lambda>u. fst u = key) ups)"

text \<open>
  The value of an action in a state (the stored value of its key, or the default), the
  maximum value over a list of actions, the actions whose value lies within the
  tolerance of that maximum, and the actions that the policy can return for a given
  first draw \<open>u1\<close>, over all second draws.
\<close>

definition action_value :: "'a agent_scheme \<Rightarrow> jsval list \<Rightarrow> nat \<Rightarrow> real" where
  "action_value ag st a = qvalue ag (getKey (Q ag) st a)"

definition max_value :: "'a agent_scheme \<Rightarrow> jsval list \<Rightarrow> nat list \<Rightarrow> real" where
  "max_value ag st actions = Max (set (map (action_value ag st) actions))"







text \<open>
  A game that \<open>X\<close> wins with its third stone (the moves 0, 3, 1, 4, 2), a game that
  ends in a draw on a full board (the moves 0, 1, 2, 4, 3, 5, 7, 6, 8), and a Q-learning
  agent, as the constructor builds it but for a table that already values the move 1
  in the position after the moves 0 and 3.
\<close>

definition won_game :: game where
  "won_game =
     \<lparr> nll = ''_'',
       state = map Str [''X'', ''X'', ''X'', ''O'', ''O'', ''_'', ''_'', ''_'', ''_''],
       currentPlayer = ''O'',
       stateHistory =
         [map Str [''_'', ''_'', ''_'', ''_'', ''_'', ''_'', ''_'', ''_'', ''_''],
          map Str [''X'', ''_'', ''_'', ''_'', ''_'', ''_'', ''_'', ''_'', ''_''],
          map Str [''X'', ''_'', ''_'', ''O'', ''_'', ''_'', ''_'', ''_'', ''_''],
          map Str [''X'', ''X'', ''_'', ''O'', ''_'', ''_'', ''_'', ''_'', ''_''],
          map Str [''X'', ''X'', ''_'', ''O'', ''O'', ''_'', ''_'', ''_'', ''_''],
          map Str [''X'', ''X'', ''X'', ''O'', ''O'', ''_'', ''_'', ''_'', ''_'']],
       actionHistory = [0, 3, 1, 4, 2] \<rparr>"

definition drawn_game :: game where
  "drawn_game =
     \<lparr> nll = ''_'',
       state = map Str [''X'', ''O'', ''X'', ''X'', ''O'', ''O'', ''O'', ''X'', ''X''],
       currentPlayer = ''O'',
       stateHistory =
         [map Str [''_'', ''_'', ''_'', ''_'', ''_'', ''_'', ''_'', ''_'', ''_''],
          map Str [''X'', ''_'', ''_'', ''_'', ''_'', ''_'', ''_'', ''_'', ''_''],
          map Str [''X'', ''O'', ''_'', ''_'', ''_'', ''_'', ''_'', ''_'', ''_''],
          map Str [''X'', ''O'', ''X'', ''_'', ''_'', ''_'', ''_'', ''_'', ''_''],
          map Str [''X'', ''O'', ''X'', ''_'', ''O'', ''_'', ''_'', ''_'', ''_''],
          map Str [''X'', ''O'', ''X'', ''X'', ''O'', ''_'', ''_'', ''_'', ''_''],
          map Str [''X'', ''O'', ''X'', ''X'', ''O'', ''O'', ''_'', ''_'', ''_''],
          map Str [''X'', ''O'', ''X'', ''X'', ''O'', ''O'', ''_'', ''X'', ''_''],
          map Str [''X'', ''O'', ''X'', ''X'', ''O'', ''O'', ''O'', ''X'', ''_''],
          map Str [''X'', ''O'', ''X'', ''X'', ''O'', ''O'', ''O'', ''X'', ''X'']],
       actionHistory = [0, 1, 2, 4, 3, 5, 7, 6, 8] \<rparr>"

definition taught_agent :: ql_agent where
  "taught_agent =
     \<lparr> player = ''O'', Q = [''X__O_____1'' \<mapsto> 1], defaultQ = 0, countQ = Map.empty,
       epsilon = None, discount = 1, alpha = 1 / 2, agentRewards = [], opponentRewards = [] \<rparr>"

text \<open>
  What the scan of the policy keeps true of its running maximum and collected actions,
  for the set \<open>S\<close> of actions scanned so far and their values \<open>f\<close>: the running
  maximum is the value of a collected action, every collected action is strictly
  within the tolerance of it, and no scanned value reaches it plus the tolerance.
\<close>

fun scan_inv :: "(nat \<Rightarrow> real) \<Rightarrow> nat set \<Rightarrow> maxval \<times> nat list \<Rightarrow> bool" where
  "scan_inv f S (NegInfinity, best) = (best = [] \<and> S = {})"
| "scan_inv f S (Finite M, best) =
     (best \<noteq> [] \<and> set best \<subseteq> S \<and> (\<exists>x \<in> set best. f x = M)
      \<and> (\<forall>x \<in> set best. M - tolerance < f x \<and> f x < M + tolerance)
      \<and> (\<forall>x \<in> S. f x < M + tolerance))"

section \<open>The board model: symmetries\<close>


lemma mirror_closed_form:
  "mirror st = [js_at st 2, js_at st 1, js_at st 0, js_at st 5, js_at st 4, js_at st 3,
                js_at st 8, js_at st 7, js_at st 6]"
  by (simp add: mirror_def mirror_inner_def unroll_def eval_nat_numeral)


lemma rot90_small [simp]:
  "rot90 st (Some 1) = [js_at st 6, js_at st 3, js_at st 0, js_at st 7, js_at st 4, js_at st 1,
                        js_at st 8, js_at st 5, js_at st 2]"
  "rot90 st (Some 2) = [js_at st 8, js_at st 7, js_at st 6, js_at st 5, js_at st 4, js_at st 3,
                        js_at st 2, js_at st 1, js_at st 0]"
  "rot90 st (Some 3) = [js_at st 2, js_at st 5, js_at st 8, js_at st 1, js_at st 4, js_at st 7,
                        js_at st 0, js_at st 3, js_at st 6]"
  "rot90 st (Some 0) = st"
  "rot90 st None = []"
  by (simp_all add: rot90_def js_rem_def)

lemma js_at_Nil [simp]: "js_at [] i = Undefined"
  by (simp add: js_at_def)

lemma js_at_Cons_0 [simp]: "js_at (x # xs) 0 = x"
  by (simp add: js_at_def)

lemma js_at_Cons_Suc [simp]: "js_at (x # xs) (Suc n) = js_at xs n"
  by (simp add: js_at_def)

lemma js_at_Cons_numeral [simp]: "js_at (x # xs) (numeral k) = js_at xs (pred_numeral k)"
  by (simp add: js_at_def numeral_eq_Suc)



section \<open>The board model: terminal outcome\<close>

lemma cell_step_eq:
  "cell_step n st i (l, d) j =
     (\<lparr>rowX = rowX l \<and> js_at st (unroll i j) = Str ''X'',
       colX = colX l \<and> js_at st (unroll j i) = Str ''X'',
       rowO = rowO l \<and> js_at st (unroll i j) = Str ''O'',
       colO = colO l \<and> js_at st (unroll j i) = Str ''O''\<rparr>,
      d\<lparr>draw := draw d \<and> js_at st (unroll i j) \<noteq> Str n\<rparr>)"
  by (cases l; cases d) (simp add: cell_step_def Let_def)

lemma diag_step_eq:
  "diag_step st i d =
     d\<lparr>tlX := tlX d \<and> js_at st (unroll i i) = Str ''X'',
       tlO := tlO d \<and> js_at st (unroll i i) = Str ''O'',
       trX := trX d \<and> js_at st (unroll i (2 - i)) = Str ''X'',
       trO := trO d \<and> js_at st (unroll i (2 - i)) = Str ''O''\<rparr>"
  by (cases d) (simp add: diag_step_def Let_def)

lemma outer_loop_step:
  "outer_loop n st (i # is) d =
     (if owns st ''X'' (unroll i 0, unroll i 1, unroll i 2)
         \<or> owns st ''X'' (unroll 0 i, unroll 1 i, unroll 2 i)
        then Inl ''X''
      else if owns st ''O'' (unroll i 0, unroll i 1, unroll i 2)
         \<or> owns st ''O'' (unroll 0 i, unroll 1 i, unroll 2 i)
        then Inl ''O''
      else outer_loop n st is
        (d\<lparr>tlX := tlX d \<and> js_at st (unroll i i) = Str ''X'',
           tlO := tlO d \<and> js_at st (unroll i i) = Str ''O'',
           trX := trX d \<and> js_at st (unroll i (2 - i)) = Str ''X'',
           trO := trO d \<and> js_at st (unroll i (2 - i)) = Str ''O'',
           draw := draw d \<and> js_at st (unroll i 0) \<noteq> Str n \<and> js_at st (unroll i 1) \<noteq> Str n
                     \<and> js_at st (unroll i 2) \<noteq> Str n\<rparr>))"
  by (cases d)
    (simp add: diag_step_eq cell_step_eq owns_def Let_def conj_ac split del: if_split cong: if_cong)

lemma board_full_iff:
  "board_full n st \<longleftrightarrow>
     (js_at st 0 \<noteq> Str n \<and> js_at st 1 \<noteq> Str n \<and> js_at st 2 \<noteq> Str n) \<and>
     (js_at st 3 \<noteq> Str n \<and> js_at st 4 \<noteq> Str n \<and> js_at st 5 \<noteq> Str n) \<and>
     js_at st 6 \<noteq> Str n \<and> js_at st 7 \<noteq> Str n \<and> js_at st 8 \<noteq> Str n"
  by (simp add: board_full_def)

lemma outer_loop_rows:
  "outer_loop n st [0, 1, 2] d =
     (if owns st ''X'' (0, 1, 2) \<or> owns st ''X'' (0, 3, 6) then Inl ''X''
      else if owns st ''O'' (0, 1, 2) \<or> owns st ''O'' (0, 3, 6) then Inl ''O''
      else if owns st ''X'' (3, 4, 5) \<or> owns st ''X'' (1, 4, 7) then Inl ''X''
      else if owns st ''O'' (3, 4, 5) \<or> owns st ''O'' (1, 4, 7) then Inl ''O''
      else if owns st ''X'' (6, 7, 8) \<or> owns st ''X'' (2, 5, 8) then Inl ''X''
      else if owns st ''O'' (6, 7, 8) \<or> owns st ''O'' (2, 5, 8) then Inl ''O''
      else Inr (d\<lparr>tlX := tlX d \<and> owns st ''X'' (0, 4, 8),
                    tlO := tlO d \<and> owns st ''O'' (0, 4, 8),
                    trX := trX d \<and> owns st ''X'' (2, 4, 6),
                    trO := trO d \<and> owns st ''O'' (2, 4, 6),
                    draw := draw d \<and> board_full n st\<rparr>))"
proof -
  have u: "unroll 0 0 = 0" "unroll 0 1 = 1" "unroll 0 2 = 2" "unroll 1 0 = 3" "unroll 1 1 = 4"
    "unroll 1 2 = 5" "unroll 2 0 = 6" "unroll 2 1 = 7" "unroll 2 2 = 8"
    "unroll 0 (2 - 0) = 2" "unroll 1 (2 - 1) = 4" "unroll 2 (2 - 2) = 6"
    by (simp_all add: unroll_def)
  have diag:
    "owns st t (0, 4, 8) \<longleftrightarrow> (js_at st 0 = Str t \<and> js_at st 4 = Str t) \<and> js_at st 8 = Str t"
    "owns st t (2, 4, 6) \<longleftrightarrow> (js_at st 2 = Str t \<and> js_at st 4 = Str t) \<and> js_at st 6 = Str t" for t
    by (auto simp add: owns_def)
  show ?thesis
    apply (subst outer_loop_step)
    apply (subst outer_loop_step)
    apply (subst outer_loop_step)
    apply (simp only: u outer_loop.simps(1) diag board_full_iff)
    apply (cases d)
    apply (simp add: conj_ac split del: if_split cong: if_cong)
    done
qed

lemma checkTermination_state_closed:
  "checkTermination_state n st =
     (if owns st ''X'' (0, 1, 2) \<or> owns st ''X'' (0, 3, 6) then ''X''
      else if owns st ''O'' (0, 1, 2) \<or> owns st ''O'' (0, 3, 6) then ''O''
      else if owns st ''X'' (3, 4, 5) \<or> owns st ''X'' (1, 4, 7) then ''X''
      else if owns st ''O'' (3, 4, 5) \<or> owns st ''O'' (1, 4, 7) then ''O''
      else if owns st ''X'' (6, 7, 8) \<or> owns st ''X'' (2, 5, 8) then ''X''
      else if owns st ''O'' (6, 7, 8) \<or> owns st ''O'' (2, 5, 8) then ''O''
      else if owns st ''X'' (0, 4, 8) \<or> owns st ''X'' (2, 4, 6) then ''X''
      else if owns st ''O'' (0, 4, 8) \<or> owns st ''O'' (2, 4, 6) then ''O''
      else if board_full n st then ''draw''
      else '''')"
  unfolding checkTermination_state_def outer_loop_rows
  by (simp del: One_nat_def)








lemmas eval_board =
  checkTermination_def checkTermination_state_closed owns_def board_full_def




section \<open>The board model: moves and legal actions\<close>

text \<open>
  C8. \<open>move(index)\<close> throws \<open>InvalidActionError\<close>, and nothing else, exactly when
  the index is outside 0..8, or the target cell is not empty, or the terminal outcome
  is already non-empty. When it throws, the game is left as it was. On success the cell
  holds the current player's token, the action index and a copy of the new board are
  appended to the histories, and the current player is the other token.
\<close>

theorem move_contract:
  "(fst (move g index) = Some InvalidActionError \<longleftrightarrow>
      (index < 0 \<or> 8 < index \<or> js_at (state g) (nat index) \<noteq> Str (nll g)
       \<or> checkTermination g None \<noteq> ''''))
   \<and> (fst (move g index) = None \<or> fst (move g index) = Some InvalidActionError)
   \<and> (fst (move g index) \<noteq> None \<longrightarrow> snd (move g index) = g)
   \<and> (fst (move g index) = None \<longrightarrow>
        state (snd (move g index)) = (state g)[nat index := Str (currentPlayer g)]
        \<and> actionHistory (snd (move g index)) = actionHistory g @ [nat index]
        \<and> stateHistory (snd (move g index))
            = stateHistory g @ [(state g)[nat index := Str (currentPlayer g)]]
        \<and> currentPlayer (snd (move g index)) = (if currentPlayer g = ''X'' then ''O'' else ''X'')
        \<and> nll (snd (move g index)) = nll g)"
  by (auto simp: move_def Let_def)

theorem move_contract_witness:
  "fst (move fresh 4) = None
   \<and> state (snd (move fresh 4))
       = map Str [''_'', ''_'', ''_'', ''_'', ''X'', ''_'', ''_'', ''_'', ''_'']
   \<and> actionHistory (snd (move fresh 4)) = [4]
   \<and> stateHistory (snd (move fresh 4))
       = [map Str [''_'', ''_'', ''_'', ''_'', ''_'', ''_'', ''_'', ''_'', ''_''],
          map Str [''_'', ''_'', ''_'', ''_'', ''X'', ''_'', ''_'', ''_'', ''_'']]
   \<and> currentPlayer (snd (move fresh 4)) = ''O''
   \<and> fst (move fresh 9) = Some InvalidActionError
   \<and> snd (move fresh 9) = fresh
   \<and> fst (move (snd (move fresh 4)) 4) = Some InvalidActionError
   \<and> snd (move (snd (move fresh 4)) 4) = snd (move fresh 4)"
proof -
  have ok: "fst (move fresh 4) = None"
    by (simp add: move_def eval_board fresh_def)
  have range: "fst (move fresh 9) \<noteq> None"
    by (simp add: move_def)
  have taken: "fst (move (snd (move fresh 4)) 4) \<noteq> None"
    by (simp add: move_def eval_board fresh_def)
  show ?thesis
    using ok range taken move_contract [of fresh 4] move_contract [of fresh 9]
      move_contract [of "snd (move fresh 4)" 4]
    by (simp add: fresh_def)
qed

text \<open>
  C4. The legal-action query reads the current board whatever horizon it is given: after
  the opening move on the centre, the query for horizon 0 leaves out the centre, which
  is empty in \<open>stateHistory[0]\<close>. With no horizon it returns the empty cells of the
  current board in ascending order.
\<close>

theorem getValidActions_ignores_horizon:
  "getValidActions (snd (move fresh 4)) (Some 0) = [0, 1, 2, 3, 5, 6, 7, 8]
   \<and> empty_cells (nll (snd (move fresh 4))) (stateHistory (snd (move fresh 4)) ! 0)
       = [0, 1, 2, 3, 4, 5, 6, 7, 8]
   \<and> getValidActions (snd (move fresh 4)) None
       = empty_cells (nll (snd (move fresh 4))) (state (snd (move fresh 4)))"
  by (simp add: move_def eval_board fresh_def getValidActions_def empty_cells_def upt_rec)

section \<open>Table keys\<close>

lemma first_hit_sole:
  assumes "K \<in> set ks" and "tbl K \<noteq> None"
    and "\<forall>k \<in> set ks. tbl k \<noteq> None \<longrightarrow> k = K"
  shows "first_hit tbl ks = Some K"
  using assms
proof (induction ks)
  case Nil
  then show ?case by simp
next
  case (Cons a ks)
  show ?case
  proof (cases "tbl a = None")
    case True
    with Cons.prems(2) have "a \<noteq> K" by blast
    with Cons.prems(1) have "K \<in> set ks" by simp
    moreover have "\<forall>k \<in> set ks. tbl k \<noteq> None \<longrightarrow> k = K"
      using Cons.prems(3) by simp
    ultimately have "first_hit tbl ks = Some K"
      using Cons.IH Cons.prems(2) by blast
    with True show ?thesis by simp
  next
    case False
    with Cons.prems(3) have "a = K" by simp
    with False show ?thesis by simp
  qed
qed

lemma first_hit_SomeD: "first_hit tbl ks = Some x \<Longrightarrow> x \<in> set ks \<and> tbl x \<noteq> None"
  by (induction ks) (auto split: if_splits)

lemma first_hit_None: "(\<forall>k \<in> set ks. tbl k = None) \<Longrightarrow> first_hit tbl ks = None"
  by (induction ks) auto

lemma less_9_cases:
  assumes "(a::nat) < 9"
  shows "a = 0 \<or> a = 1 \<or> a = 2 \<or> a = 3 \<or> a = 4 \<or> a = 5 \<or> a = 6 \<or> a = 7 \<or> a = 8"
  using assms by (simp add: eval_nat_numeral less_Suc_eq)

lemma toActionArray_values:
  "toActionArray 0 = [Str ''A'', Null, Null, Null, Null, Null, Null, Null, Null]"
  "toActionArray 1 = [Null, Str ''A'', Null, Null, Null, Null, Null, Null, Null]"
  "toActionArray 2 = [Null, Null, Str ''A'', Null, Null, Null, Null, Null, Null]"
  "toActionArray 3 = [Null, Null, Null, Str ''A'', Null, Null, Null, Null, Null]"
  "toActionArray 4 = [Null, Null, Null, Null, Str ''A'', Null, Null, Null, Null]"
  "toActionArray 5 = [Null, Null, Null, Null, Null, Str ''A'', Null, Null, Null]"
  "toActionArray 6 = [Null, Null, Null, Null, Null, Null, Str ''A'', Null, Null]"
  "toActionArray 7 = [Null, Null, Null, Null, Null, Null, Null, Str ''A'', Null]"
  "toActionArray 8 = [Null, Null, Null, Null, Null, Null, Null, Null, Str ''A'']"
  "toActionArray (Suc 0) = [Null, Str ''A'', Null, Null, Null, Null, Null, Null, Null]"
  by (simp_all add: toActionArray_def eval_nat_numeral)

lemma decimal_digit: "d < 10 \<Longrightarrow> length (decimal d) = 1"
  by simp

lemma toActionIndex_toActionArray:
  assumes "action < 9"
  shows "toActionIndex (toActionArray action) = Some action"
  using less_9_cases [OF assms]
  by (elim disjE) (simp_all add: toActionArray_values toActionIndex_def)

lemma mirror_key_short:
  assumes "action < 9" and "n = 1 \<or> n = 2 \<or> n = 3"
  shows "length (mirror_key ms (mirror (toActionArray action)) n) = 1"
proof -
  have "\<exists>d < 9. toActionIndex (rot90 (mirror (toActionArray action)) (Some n)) = Some d"
    using less_9_cases [OF assms(1)] assms(2)
    by (elim disjE)
      (simp_all add: toActionArray_values mirror_closed_form toActionIndex_def)
  then obtain d where d: "d < 9"
    "toActionIndex (rot90 (mirror (toActionArray action)) (Some n)) = Some d" by blast
  from d(1) have "length (decimal d) = 1" by simp
  then show ?thesis
    by (simp add: mirror_key_def hash_def join_def d(2) del: decimal.simps)
qed

lemma rot_key_variant: "rot_key st (toActionArray action) n = variant_key st action False n"
  by (simp add: rot_key_def variant_key_def)

lemmas eval_keys =
  getKey_def rot_key_def mirror_key_def variant_key_def variant_keys_def sole_variant_def
  hash_def join_def toActionArray_values toActionIndex_def mirror_closed_form digit_def

text \<open>
  C1, as stated, fails for the mirrored representative that is not rotated: with only
  the key of the mirrored pair in the table, \<open>getKey\<close> returns the fresh literal hash.
  The second loop starts at \<open>n = 1\<close>, so the mirror without a rotation is never a
  candidate.
\<close>

theorem getKey_mirror_counterexample:
  "variant_key (map Str [''X'', ''_'', ''_'', ''_'', ''_'', ''_'', ''_'', ''_'', ''_'']) 1 True 0
     = ''__X______1''
   \<and> sole_variant [''__X______1'' \<mapsto> 1]
        (map Str [''X'', ''_'', ''_'', ''_'', ''_'', ''_'', ''_'', ''_'', ''_'']) 1 ''__X______1''
   \<and> getKey [''__X______1'' \<mapsto> 1]
        (map Str [''X'', ''_'', ''_'', ''_'', ''_'', ''_'', ''_'', ''_'', ''_'']) 1
     = ''X________1''"
  by (simp add: eval_keys)

text \<open>
  C1, amended. For every state and every action index in 0..8: if the table holds the
  key of the pair itself or of one of its three rotations (\<open>k\<close> quarter turns,
  \<open>k = 0, 1, 2, 3\<close>, not mirrored) and no other key of the eight variants, then
  \<open>getKey\<close> returns that key; for the pair's own key (\<open>k = 0\<close>) this needs a table
  whose keys all have the length of a hashed board.
\<close>

theorem getKey_rotation_variant:
  assumes action: "action < 9"
    and k: "k = 0 \<or> k = 1 \<or> k = 2 \<or> k = 3"
    and sole: "sole_variant tbl st action (variant_key st action False k)"
    and full: "k = 0 \<longrightarrow> full_keys tbl"
  shows "getKey tbl st action = variant_key st action False k"
proof -
  let ?K = "variant_key st action False k"
  let ?ks = "map (rot_key st (toActionArray action)) [1, 2, 3]"
  have ks: "?ks = [variant_key st action False 1, variant_key st action False 2,
                   variant_key st action False 3]"
    by (simp add: rot_key_variant)
  from sole have present: "tbl ?K \<noteq> None"
    and only: "\<forall>v \<in> set (variant_keys st action). tbl v \<noteq> None \<longrightarrow> v = ?K"
    by (simp_all add: sole_variant_def list_all_iff)
  have sub: "set ?ks \<subseteq> set (variant_keys st action)"
    unfolding ks by (simp add: variant_keys_def)
  from only sub have only_ks: "\<forall>v \<in> set ?ks. tbl v \<noteq> None \<longrightarrow> v = ?K"
    by blast
  show ?thesis
  proof (cases "k = 0")
    case False
    with k have "?K \<in> set ?ks" unfolding ks by auto
    then have "first_hit tbl ?ks = Some ?K"
      using present only_ks by (rule first_hit_sole)
    then show ?thesis by (simp add: getKey_def)
  next
    case True
    then have literal: "?K = hash st (Some action)"
      by (simp add: variant_key_def toActionIndex_toActionArray [OF action])
    show ?thesis
    proof (cases "first_hit tbl ?ks")
      case (Some x)
      then have "x \<in> set ?ks" and "tbl x \<noteq> None"
        using first_hit_SomeD by blast+
      with only_ks have "x = ?K" by blast
      with Some show ?thesis by (simp add: getKey_def)
    next
      case None
      let ?ms = "map (mirror_key (mirror st) (mirror (toActionArray action))) [1, 2, 3]"
      from True full have len: "\<forall>key. tbl key \<noteq> None \<longrightarrow> length key = 10"
        by (simp add: full_keys_def)
      have "\<forall>key \<in> set ?ms. length key = 1"
        using mirror_key_short [OF action] by simp
      with len have "\<forall>key \<in> set ?ms. tbl key = None"
        by fastforce
      then have "first_hit tbl ?ms = None"
        by (rule first_hit_None)
      with None literal show ?thesis by (simp add: getKey_def)
    qed
  qed
qed

theorem getKey_rotation_variant_witness:
  "variant_key (map Str [''X'', ''_'', ''_'', ''_'', ''_'', ''_'', ''_'', ''_'', ''_'']) 1 False 1
     = ''__X______5''
   \<and> getKey [''__X______5'' \<mapsto> 1]
        (map Str [''X'', ''_'', ''_'', ''_'', ''_'', ''_'', ''_'', ''_'', ''_'']) 1
     = ''__X______5''
   \<and> full_keys [''X________1'' \<mapsto> 1]
   \<and> getKey [''X________1'' \<mapsto> 1]
        (map Str [''X'', ''_'', ''_'', ''_'', ''_'', ''_'', ''_'', ''_'', ''_'']) 1
     = ''X________1''"
proof -
  let ?st = "map Str [''X'', ''_'', ''_'', ''_'', ''_'', ''_'', ''_'', ''_'', ''_'']"
  have v1: "variant_key ?st 1 False 1 = ''__X______5''"
    by (simp add: eval_keys)
  have v0: "variant_key ?st 1 False 0 = ''X________1''"
    by (simp add: eval_keys)
  have s1: "sole_variant [''__X______5'' \<mapsto> 1] ?st 1 (variant_key ?st 1 False 1)"
    by (simp add: eval_keys)
  have s0: "sole_variant [''X________1'' \<mapsto> 1] ?st 1 (variant_key ?st 1 False 0)"
    by (simp add: eval_keys)
  have f0: "full_keys [''X________1'' \<mapsto> 1]"
    by (simp add: full_keys_def)
  have "getKey [''__X______5'' \<mapsto> 1] ?st 1 = variant_key ?st 1 False 1"
    using getKey_rotation_variant [of 1 1 "[''__X______5'' \<mapsto> 1]" ?st] s1 by simp
  moreover have "getKey [''X________1'' \<mapsto> 1] ?st 1 = variant_key ?st 1 False 0"
    using getKey_rotation_variant [of 1 0 "[''X________1'' \<mapsto> 1]" ?st] s0 f0 by simp
  ultimately show ?thesis using v1 v0 f0 by simp
qed

text \<open>
  C2. The mirrored sweep of \<open>getKey\<close>. With only the key of the mirrored state rotated by
  a quarter turn in the table, and none of the three rotated unmirrored keys present,
  \<open>getKey\<close> does not return that key: the second loop hashes \<open>rot90(mirrorState)\<close>,
  called without the rotation count, which is the empty array, so the three keys it
  looks up are the bare action indices.
\<close>

theorem getKey_mirrored_sweep_misses:
  "variant_key (map Str [''X'', ''_'', ''_'', ''_'', ''_'', ''_'', ''_'', ''_'', ''_'']) 1 True 1
     = ''________X5''
   \<and> first_hit [''________X5'' \<mapsto> 1]
        (map (rot_key (map Str [''X'', ''_'', ''_'', ''_'', ''_'', ''_'', ''_'', ''_'', ''_''])
               (toActionArray 1)) [1, 2, 3]) = None
   \<and> map (mirror_key (mirror (map Str [''X'', ''_'', ''_'', ''_'', ''_'', ''_'', ''_'', ''_'', ''_'']))
            (mirror (toActionArray 1))) [1, 2, 3] = [''5'', ''7'', ''3'']
   \<and> getKey [''________X5'' \<mapsto> 1]
        (map Str [''X'', ''_'', ''_'', ''_'', ''_'', ''_'', ''_'', ''_'', ''_'']) 1
     = ''X________1''"
  by (simp add: eval_keys)

section \<open>The epsilon-greedy policy\<close>







lemma zip_values:
  "zip as (map g (map h as)) = map (\<lambda>a. (a, g (h a))) as"
  by (induction as) simp_all

lemma policy_greedy:
  assumes "\<not> explores ag u1"
    and "horizon = None \<longrightarrow> player ag = currentPlayer g"
    and "getValidActions g horizon \<noteq> []"
    and "horizon_state g horizon = Some st"
  shows "policy ag g horizon u1 u2 =
     (if snd (best_loop (map (\<lambda>a. (a, action_value ag st a)) (getValidActions g horizon))
               (NegInfinity, [])) \<noteq> []
      then Inr (randomChoice
             (snd (best_loop (map (\<lambda>a. (a, action_value ag st a)) (getValidActions g horizon))
                (NegInfinity, []))) u2)
      else Inr None)"
proof -
  have zipped: "zip (getValidActions g horizon)
        (map (qvalue ag) (map (getKey (Q ag) st) (getValidActions g horizon)))
      = map (\<lambda>a. (a, action_value ag st a)) (getValidActions g horizon)"
    unfolding action_value_def by (rule zip_values)
  from assms(2) have aligned: "\<not> (horizon = None \<and> player ag \<noteq> currentPlayer g)"
    by blast
  show ?thesis
    unfolding policy_def
    by (simp only: aligned assms(1,3,4) zipped Let_def split_def if_False option.case
        length_0_conv length_greater_0_conv)
qed






section \<open>Monte-Carlo learner: the incremental mean\<close>

lemma mc_update_other:
  assumes "key' \<noteq> key"
  shows "Q (mc_update ag key' g) key = Q ag key"
    and "countQ (mc_update ag key' g) key = countQ ag key"
  using assms by (simp_all add: mc_update_def Let_def)

lemma mc_update_first:
  assumes "Q ag key = None" and "countQ ag key = None"
  shows "Q (mc_update ag key g) key = Some (g / real 1)"
    and "countQ (mc_update ag key g) key = Some 1"
  using assms by (simp_all add: mc_update_def qvalue_def Let_def)

lemma mc_update_next:
  assumes "Q ag key = Some (S / real n)" and "countQ ag key = Some n" and "0 < n"
  shows "Q (mc_update ag key g) key = Some ((S + g) / real (n + 1))"
    and "countQ (mc_update ag key g) key = Some (n + 1)"
proof -
  from \<open>0 < n\<close> have "S / real n * real n / (real n + 1) + g / (real n + 1) = (S + g) / real (n + 1)"
    by (simp add: add_divide_distrib add.commute)
  with assms show "Q (mc_update ag key g) key = Some ((S + g) / real (n + 1))"
    by (simp add: mc_update_def qvalue_def Let_def)
  from assms show "countQ (mc_update ag key g) key = Some (n + 1)"
    by (simp add: mc_update_def Let_def)
qed

lemma mc_updates_Nil [simp]: "mc_updates ag [] = ag"
  by (simp add: mc_updates_def)

lemma mc_updates_Cons [simp]: "mc_updates ag ((k, g) # ups) = mc_updates (mc_update ag k g) ups"
  by (simp add: mc_updates_def)

lemma returns_of_Cons [simp]:
  "returns_of key ((k, g) # ups) = (if k = key then g # returns_of key ups else returns_of key ups)"
  by (simp add: returns_of_def)

lemma returns_of_Nil [simp]: "returns_of key [] = []"
  by (simp add: returns_of_def)

lemma mc_updates_running:
  assumes "Q ag key = Some (S / real n)" and "countQ ag key = Some n" and "0 < n"
  shows "Q (mc_updates ag ups) key
           = Some ((S + sum_list (returns_of key ups)) / real (n + length (returns_of key ups)))
       \<and> countQ (mc_updates ag ups) key = Some (n + length (returns_of key ups))"
  using assms
proof (induction ups arbitrary: ag S n)
  case Nil
  then show ?case by simp
next
  case (Cons u ups)
  obtain k g where u: "u = (k, g)" by (cases u)
  show ?case
  proof (cases "k = key")
    case True
    have "Q (mc_update ag key g) key = Some ((S + g) / real (n + 1))"
      and "countQ (mc_update ag key g) key = Some (n + 1)"
      using mc_update_next [OF Cons.prems] by simp_all
    from Cons.IH [OF this] show ?thesis
      by (simp add: u True add.assoc)
  next
    case False
    have "Q (mc_update ag k g) key = Some (S / real n)"
      and "countQ (mc_update ag k g) key = Some n"
      using mc_update_other [OF False] Cons.prems by simp_all
    from Cons.IH [OF this Cons.prems(3)] show ?thesis
      by (simp add: u False)
  qed
qed

lemma mc_updates_fresh:
  assumes "Q ag key = None" and "countQ ag key = None" and "returns_of key ups \<noteq> []"
  shows "Q (mc_updates ag ups) key
           = Some (sum_list (returns_of key ups) / real (length (returns_of key ups)))
       \<and> countQ (mc_updates ag ups) key = Some (length (returns_of key ups))"
  using assms
proof (induction ups arbitrary: ag)
  case Nil
  then show ?case by simp
next
  case (Cons u ups)
  obtain k g where u: "u = (k, g)" by (cases u)
  show ?case
  proof (cases "k = key")
    case True
    have "Q (mc_update ag key g) key = Some (g / real 1)"
      and "countQ (mc_update ag key g) key = Some 1"
      using mc_update_first [OF Cons.prems(1,2)] by simp_all
    from mc_updates_running [OF this, of ups] show ?thesis
      by (simp add: u True)
  next
    case False
    have "Q (mc_update ag k g) key = None" and "countQ (mc_update ag k g) key = None"
      using mc_update_other [OF False] Cons.prems by simp_all
    moreover from Cons.prems(3) have "returns_of key ups \<noteq> []"
      by (simp add: u False)
    ultimately show ?thesis
      using Cons.IH by (simp add: u False)
  qed
qed

lemma returns_of_mset:
  assumes "mset ups' = mset ups"
  shows "mset (returns_of key ups') = mset (returns_of key ups)"
proof -
  have "mset (returns_of key xs) = image_mset snd (filter_mset (\<lambda>u. fst u = key) (mset xs))" for xs
    by (simp add: returns_of_def)
  with assms show ?thesis by simp
qed

text \<open>
  C7. Starting from a key that the table and the visit counts do not hold, after any
  sequence of Monte-Carlo updates (updates of other keys in between included) the value
  stored for the key is the arithmetic mean of the returns applied to it and the visit
  count is their number. The returns are arbitrary reals, so this holds for every
  discount factor; and the stored value is the same for every order of arrival.
\<close>

theorem mc_incremental_mean:
  assumes "Q ag key = None" and "countQ ag key = None" and "returns_of key ups \<noteq> []"
  shows "Q (mc_updates ag ups) key
           = Some (sum_list (returns_of key ups) / real (length (returns_of key ups)))
       \<and> countQ (mc_updates ag ups) key = Some (length (returns_of key ups))
       \<and> (\<forall>ups'. mset ups' = mset ups \<longrightarrow>
             Q (mc_updates ag ups') key = Q (mc_updates ag ups) key
             \<and> countQ (mc_updates ag ups') key = countQ (mc_updates ag ups) key)"
proof -
  have mean: "Q (mc_updates ag ups) key
           = Some (sum_list (returns_of key ups) / real (length (returns_of key ups)))"
    and count: "countQ (mc_updates ag ups) key = Some (length (returns_of key ups))"
    using mc_updates_fresh [OF assms] by simp_all
  have order: "Q (mc_updates ag ups') key = Q (mc_updates ag ups) key
      \<and> countQ (mc_updates ag ups') key = countQ (mc_updates ag ups) key"
    if perm: "mset ups' = mset ups" for ups'
  proof -
    have m: "mset (returns_of key ups') = mset (returns_of key ups)"
      using perm by (rule returns_of_mset)
    then have len: "length (returns_of key ups') = length (returns_of key ups)"
      by (rule mset_eq_length)
    from m have "sum_mset (mset (returns_of key ups')) = sum_mset (mset (returns_of key ups))"
      by simp
    then have sum: "sum_list (returns_of key ups') = sum_list (returns_of key ups)"
      by (simp add: sum_mset_sum_list)
    from len assms(3) have "returns_of key ups' \<noteq> []" by auto
    from mc_updates_fresh [OF assms(1,2) this] mean count len sum show ?thesis
      by simp
  qed
  from mean count order show ?thesis by blast
qed

theorem mc_incremental_mean_witness:
  "Q (fst (MonteCarloAgent \<lparr>self_epsilon = None\<rparr> ''O'' (1 / 10) 1 0)) ''X________4'' = None
   \<and> returns_of ''X________4'' [(''X________4'', 1), (''XO_______8'', 1), (''X________4'', - 1),
        (''X________4'', 0), (''X________4'', 1)] = [1, - 1, 0, 1]
   \<and> Q (mc_updates (fst (MonteCarloAgent \<lparr>self_epsilon = None\<rparr> ''O'' (1 / 10) 1 0))
        [(''X________4'', 1), (''XO_______8'', 1), (''X________4'', - 1),
         (''X________4'', 0), (''X________4'', 1)]) ''X________4'' = Some (1 / 4)
   \<and> countQ (mc_updates (fst (MonteCarloAgent \<lparr>self_epsilon = None\<rparr> ''O'' (1 / 10) 1 0))
        [(''X________4'', 1), (''XO_______8'', 1), (''X________4'', - 1),
         (''X________4'', 0), (''X________4'', 1)]) ''X________4'' = Some 4"
proof -
  let ?ag = "fst (MonteCarloAgent \<lparr>self_epsilon = None\<rparr> ''O'' (1 / 10) 1 0)"
  let ?ups = "[(''X________4'', 1::real), (''XO_______8'', 1), (''X________4'', - 1),
         (''X________4'', 0), (''X________4'', 1)]"
  have q: "Q ?ag ''X________4'' = None" and c: "countQ ?ag ''X________4'' = None"
    by (simp_all add: MonteCarloAgent_def EpsilonGreedyAgent_def Agent_def)
  have r: "returns_of ''X________4'' ?ups = [1, - 1, 0, 1]"
    by simp
  then have ne: "returns_of ''X________4'' ?ups \<noteq> []" by simp
  from mc_incremental_mean [OF q c ne] r q show ?thesis
    by simp
qed

section \<open>Q-learning learner\<close>

lemma updateQ_loop_done:
  assumes "\<not> i < e"
  shows "updateQ_loop ag g playerChoice rewardFunc rnd pos e i = (None, ag, pos)"
  using assms by simp

lemma updateQ_loop_step:
  assumes "i < e"
    and "nth_opt (stateHistory g) i = Some s"
    and "nth_opt (actionHistory g) i = Some a"
    and "policy ag g (Some (nat (i + 2))) (rnd pos) (rnd (pos + 1)) = Inr (Some futureAction)"
    and "nth_opt (stateHistory g) (i + 2) = Some s2"
    and "getKey (Q ag) s a = oldKey"
    and "qvalue ag oldKey + alpha ag * (rewardFunc g playerChoice (Some (nat (i + 2)))
           + discount ag * qvalue ag (getKey (Q ag) s2 futureAction) - qvalue ag oldKey) = newQ"
  shows "updateQ_loop ag g playerChoice rewardFunc rnd pos e i
           = updateQ_loop (ag\<lparr>Q := (Q ag)(oldKey \<mapsto> newQ)\<rparr>) g playerChoice rewardFunc rnd
               (pos + 2) e (i + 2)"
  by (subst updateQ_loop.simps) (simp only: assms if_True option.case sum.case)

lemma policy_first_of_four:
  assumes "\<not> explores ag 0"
    and "horizon_state g (Some h) = Some s"
    and "getValidActions g (Some h) = [a, b, c, d]"
    and "map (action_value ag s) [a, b, c, d] = [0, 0, 0, 0]"
  shows "policy ag g (Some h) 0 0 = Inr (Some a)"
proof -
  from assms(4) have v: "action_value ag s a = 0" "action_value ag s b = 0"
    "action_value ag s c = 0" "action_value ag s d = 0"
    by simp_all
  have "snd (best_loop (map (\<lambda>x. (x, action_value ag s x)) (getValidActions g (Some h)))
          (NegInfinity, [])) = [a, b, c, d]"
    by (simp add: assms(3) v tolerance_def)
  then show ?thesis
    using policy_greedy [OF assms(1) _ _ assms(2), of 0] assms(3)
    by (simp add: randomChoice_def nth_opt_def)
qed

lemmas eval_table = eval_keys action_value_def qvalue_def

lemma updateQ_result:
  assumes "(if playerChoice = ''X'' \<and> js_rem (int (length (stateHistory g))) 2 = 0
               \<or> playerChoice = ''O'' \<and> js_rem (int (length (stateHistory g))) 2 \<noteq> 0
            then int (length (stateHistory g)) - 2 else int (length (stateHistory g)) - 3) = e"
    and "(if playerChoice = ''X'' then 0 else 1) = start"
    and "updateQ_loop ag g playerChoice rewardFunc rnd pos e start = (None, ag1, pos1)"
    and "nth_opt (stateHistory g) e = Some s"
    and "nth_opt (actionHistory g) e = Some a"
    and "getKey (Q ag1) s a = terminalKey"
    and "qvalue ag1 terminalKey + alpha ag1 * (rewardFunc g playerChoice None - qvalue ag1 terminalKey)
           = newQ"
  shows "updateQ ag g playerChoice rewardFunc rnd pos
           = (None, ag1\<lparr>Q := (Q ag1)(terminalKey \<mapsto> newQ)\<rparr>, pos1)"
  unfolding updateQ_def Let_def
  by (simp only: assms prod.case option.case)

lemma won_game_reads:
  "nth_opt (stateHistory won_game) 0
     = Some [Str ''_'', Str ''_'', Str ''_'', Str ''_'', Str ''_'', Str ''_'', Str ''_'', Str ''_'', Str ''_'']"
  "nth_opt (stateHistory won_game) 1
     = Some [Str ''X'', Str ''_'', Str ''_'', Str ''_'', Str ''_'', Str ''_'', Str ''_'', Str ''_'', Str ''_'']"
  "nth_opt (stateHistory won_game) 2
     = Some [Str ''X'', Str ''_'', Str ''_'', Str ''O'', Str ''_'', Str ''_'', Str ''_'', Str ''_'', Str ''_'']"
  "nth_opt (stateHistory won_game) 3
     = Some [Str ''X'', Str ''X'', Str ''_'', Str ''O'', Str ''_'', Str ''_'', Str ''_'', Str ''_'', Str ''_'']"
  "nth_opt (stateHistory won_game) 4
     = Some [Str ''X'', Str ''X'', Str ''_'', Str ''O'', Str ''O'', Str ''_'', Str ''_'', Str ''_'', Str ''_'']"
  "nth_opt (actionHistory won_game) 0 = Some 0"
  "nth_opt (actionHistory won_game) 1 = Some 3"
  "nth_opt (actionHistory won_game) 2 = Some 1"
  "nth_opt (actionHistory won_game) 3 = Some 4"
  "nth_opt (actionHistory won_game) 4 = Some 2"
  by (simp_all add: nth_opt_def won_game_def)

lemma won_game_length: "length (stateHistory won_game) = 6"
  by (simp add: won_game_def)

lemma won_game_valid: "getValidActions won_game h = [5, 6, 7, 8]"
  by (simp add: getValidActions_def won_game_def upt_rec)

lemma won_game_rewards:
  "terminalOnly won_game ''X'' h = 1" "terminalOnly won_game ''O'' h = - 1"
  by (simp_all add: terminalOnly_def eval_board won_game_def)

lemma won_game_policy:
  assumes "epsilon ag = Some (- 1)"
    and "nth_opt (stateHistory won_game) (int h) = Some s"
    and "map (action_value ag s) [5, 6, 7, 8] = [0, 0, 0, 0]"
  shows "policy ag won_game (Some h) 0 0 = Inr (Some 5)"
proof (rule policy_first_of_four)
  show "\<not> explores ag 0" by (simp add: explores_def assms(1))
  show "horizon_state won_game (Some h) = Some s" by (simp add: horizon_state_def assms(2))
  show "getValidActions won_game (Some h) = [5, 6, 7, 8]" by (rule won_game_valid)
  show "map (action_value ag s) [5, 6, 7, 8] = [0, 0, 0, 0]" by (rule assms(3))
qed

lemma won_game_learn:
  "QLearningAgent_learn taught_agent won_game terminalOnly (\<lambda>n. 0) 0
     = (None,
        taught_agent\<lparr>Q := [''X__O_____1'' \<mapsto> 1, ''_________0'' \<mapsto> 1 / 2,
             ''X__O_____1'' \<mapsto> 1, ''XX_OO____2'' \<mapsto> 1 / 2,
             ''X________3'' \<mapsto> - (1 / 2), ''XX_O_____4'' \<mapsto> - (1 / 2)]\<rparr>,
        6)"
proof -
  let ?T0 = "[''X__O_____1'' \<mapsto> 1::real]"
  let ?T1 = "?T0(''_________0'' \<mapsto> 1 / 2)"
  let ?T2 = "?T1(''X__O_____1'' \<mapsto> 1)"
  let ?T3 = "?T2(''XX_OO____2'' \<mapsto> 1 / 2)"
  let ?T4 = "?T3(''X________3'' \<mapsto> - (1 / 2))"
  let ?T5 = "?T4(''XX_O_____4'' \<mapsto> - (1 / 2))"
  let ?ag = "\<lambda>T. taught_agent\<lparr>epsilon := Some (- 1), Q := T\<rparr>"
  let ?s0 = "[Str ''_'', Str ''_'', Str ''_'', Str ''_'', Str ''_'', Str ''_'', Str ''_'', Str ''_'', Str ''_'']"
  let ?s1 = "[Str ''X'', Str ''_'', Str ''_'', Str ''_'', Str ''_'', Str ''_'', Str ''_'', Str ''_'', Str ''_'']"
  let ?s2 = "[Str ''X'', Str ''_'', Str ''_'', Str ''O'', Str ''_'', Str ''_'', Str ''_'', Str ''_'', Str ''_'']"
  let ?s3 = "[Str ''X'', Str ''X'', Str ''_'', Str ''O'', Str ''_'', Str ''_'', Str ''_'', Str ''_'', Str ''_'']"
  let ?s4 = "[Str ''X'', Str ''X'', Str ''_'', Str ''O'', Str ''O'', Str ''_'', Str ''_'', Str ''_'', Str ''_'']"
  have fields: "alpha (?ag T) = 1 / 2" "discount (?ag T) = 1" "epsilon (?ag T) = Some (- 1)"
    "Q (?ag T) = T" "defaultQ (?ag T) = 0" for T
    by (simp_all add: taught_agent_def)
  \<comment> \<open>the moves of \<open>X\<close>: plies 0 and 2, then the final ply 4\<close>
  have x0: "updateQ_loop (?ag ?T0) won_game ''X'' terminalOnly (\<lambda>n. 0) 0 4 0
      = updateQ_loop ((?ag ?T0)\<lparr>Q := (Q (?ag ?T0))(''_________0'' \<mapsto> 1 / 2)\<rparr>)
          won_game ''X'' terminalOnly (\<lambda>n. 0) (0 + 2) 4 (0 + 2)"
  proof (rule updateQ_loop_step [where s = ?s0 and a = 0 and futureAction = 5 and ?s2.0 = ?s2])
    show "policy (?ag ?T0) won_game (Some (nat (0 + 2))) 0 0 = Inr (Some 5)"
      by (rule won_game_policy [where s = "?s2"]) (simp_all add: fields won_game_reads eval_table)
    show "qvalue (?ag ?T0) ''_________0''
        + alpha (?ag ?T0) * (terminalOnly won_game ''X'' (Some (nat (0 + 2)))
            + discount (?ag ?T0) * qvalue (?ag ?T0) (getKey (Q (?ag ?T0)) ?s2 5)
            - qvalue (?ag ?T0) ''_________0'') = 1 / 2"
      by (simp add: fields won_game_rewards eval_table)
  qed (simp_all add: fields won_game_reads eval_keys)
  have x2: "updateQ_loop (?ag ?T1) won_game ''X'' terminalOnly (\<lambda>n. 0) 2 4 2
      = updateQ_loop ((?ag ?T1)\<lparr>Q := (Q (?ag ?T1))(''X__O_____1'' \<mapsto> 1)\<rparr>)
          won_game ''X'' terminalOnly (\<lambda>n. 0) (2 + 2) 4 (2 + 2)"
  proof (rule updateQ_loop_step [where s = ?s2 and a = 1 and futureAction = 5 and ?s2.0 = ?s4])
    show "policy (?ag ?T1) won_game (Some (nat (2 + 2))) 0 0 = Inr (Some 5)"
      by (rule won_game_policy [where s = "?s4"]) (simp_all add: fields won_game_reads eval_table)
    show "qvalue (?ag ?T1) ''X__O_____1''
        + alpha (?ag ?T1) * (terminalOnly won_game ''X'' (Some (nat (2 + 2)))
            + discount (?ag ?T1) * qvalue (?ag ?T1) (getKey (Q (?ag ?T1)) ?s4 5)
            - qvalue (?ag ?T1) ''X__O_____1'') = 1"
      by (simp add: fields won_game_rewards eval_table)
  qed (simp_all add: fields won_game_reads eval_keys)
  have x_loop: "updateQ_loop (?ag ?T0) won_game ''X'' terminalOnly (\<lambda>n. 0) 0 4 0
      = (None, ?ag ?T2, 4)"
    unfolding x0 add_0 using x2 by (simp add: fields updateQ_loop_done del: updateQ_loop.simps)
  have x: "updateQ (?ag ?T0) won_game ''X'' terminalOnly (\<lambda>n. 0) 0
      = (None, (?ag ?T2)\<lparr>Q := (Q (?ag ?T2))(''XX_OO____2'' \<mapsto> 1 / 2)\<rparr>, 4)"
  proof (rule updateQ_result [where e = 4 and start = 0 and s = ?s4 and a = 2])
    show "updateQ_loop (?ag ?T0) won_game ''X'' terminalOnly (\<lambda>n. 0) 0 4 0 = (None, ?ag ?T2, 4)"
      by (rule x_loop)
    show "qvalue (?ag ?T2) ''XX_OO____2''
        + alpha (?ag ?T2) * (terminalOnly won_game ''X'' None - qvalue (?ag ?T2) ''XX_OO____2'')
        = 1 / 2"
      by (simp add: fields won_game_rewards eval_table)
  qed (simp_all add: fields won_game_reads eval_keys won_game_length js_rem_def)
  \<comment> \<open>the moves of \<open>O\<close>: ply 1, then its last ply 3\<close>
  have o1: "updateQ_loop (?ag ?T3) won_game ''O'' terminalOnly (\<lambda>n. 0) 4 3 1
      = updateQ_loop ((?ag ?T3)\<lparr>Q := (Q (?ag ?T3))(''X________3'' \<mapsto> - (1 / 2))\<rparr>)
          won_game ''O'' terminalOnly (\<lambda>n. 0) (4 + 2) 3 (1 + 2)"
  proof (rule updateQ_loop_step [where s = ?s1 and a = 3 and futureAction = 5 and ?s2.0 = ?s3])
    show "policy (?ag ?T3) won_game (Some (nat (1 + 2))) 0 0 = Inr (Some 5)"
      by (rule won_game_policy [where s = "?s3"]) (simp_all add: fields won_game_reads eval_table)
    show "qvalue (?ag ?T3) ''X________3''
        + alpha (?ag ?T3) * (terminalOnly won_game ''O'' (Some (nat (1 + 2)))
            + discount (?ag ?T3) * qvalue (?ag ?T3) (getKey (Q (?ag ?T3)) ?s3 5)
            - qvalue (?ag ?T3) ''X________3'') = - (1 / 2)"
      by (simp add: fields won_game_rewards eval_table)
  qed (simp_all add: fields won_game_reads eval_keys)
  have o_loop: "updateQ_loop (?ag ?T3) won_game ''O'' terminalOnly (\<lambda>n. 0) 4 3 1
      = (None, ?ag ?T4, 6)"
    unfolding o1 by (simp add: fields updateQ_loop_done del: updateQ_loop.simps)
  have o: "updateQ (?ag ?T3) won_game ''O'' terminalOnly (\<lambda>n. 0) 4
      = (None, (?ag ?T4)\<lparr>Q := (Q (?ag ?T4))(''XX_O_____4'' \<mapsto> - (1 / 2))\<rparr>, 6)"
  proof (rule updateQ_result [where e = 3 and start = 1 and s = ?s3 and a = 4])
    show "updateQ_loop (?ag ?T3) won_game ''O'' terminalOnly (\<lambda>n. 0) 4 3 1 = (None, ?ag ?T4, 6)"
      by (rule o_loop)
    show "qvalue (?ag ?T4) ''XX_O_____4''
        + alpha (?ag ?T4) * (terminalOnly won_game ''O'' None - qvalue (?ag ?T4) ''XX_O_____4'')
        = - (1 / 2)"
      by (simp add: fields won_game_rewards eval_table)
  qed (simp_all add: fields won_game_reads eval_keys won_game_length js_rem_def)
  have over: "checkTermination won_game None \<noteq> ''''"
    by (simp add: eval_board won_game_def)
  have start: "taught_agent\<lparr>epsilon := Some (- 1)\<rparr> = ?ag ?T0"
    by (simp add: taught_agent_def)
  have x': "updateQ (taught_agent\<lparr>epsilon := Some (- 1)\<rparr>) won_game ''X'' terminalOnly (\<lambda>n. 0) 0
      = (None, ?ag ?T3, 4)"
    by (subst start) (simp add: x fields)
  have o': "updateQ (?ag ?T3) won_game ''O'' terminalOnly (\<lambda>n. 0) 4 = (None, ?ag ?T5, 6)"
    unfolding o by (simp add: fields)
  have restore: "(?ag ?T5)\<lparr>epsilon := epsilon taught_agent\<rparr> = taught_agent\<lparr>Q := ?T5\<rparr>"
    by (simp add: taught_agent_def)
  show ?thesis
    unfolding QLearningAgent_learn_def Let_def
    by (simp only: over if_True x' o' prod.case option.case restore not_False_eq_True)
qed

text \<open>
  C3. The update of an intermediate ply takes its greedy action among the empty cells
  of the final board, not of the historical state \<open>stateHistory[i + 2]\<close>: \<open>policy\<close>
  reads the state at the horizon but asks \<open>getValidActions\<close>, which ignores the
  horizon, for the legal actions. In the game won by \<open>X\<close> with the moves 0, 3, 1, 4, 2,
  the update for ply 0 looks at the position after the moves 0 and 3, where the table
  values the legal move 1 at 1; the candidates are the cells 5 to 8, all valued 0, so
  \<open>learn\<close> stores 1/2 for the first move, where the one-step target over the legal
  actions of that position gives 1. On a game drawn on a full board there is no
  candidate at all: \<open>learn\<close> throws \<open>InvalidActionError\<close> at the first intermediate
  ply, having updated nothing.
\<close>

theorem QLearningAgent_learn_wrong_action_set:
  "play fresh [0, 3, 1, 4, 2] = Inr won_game
   \<and> getValidActions won_game (Some 2) = [5, 6, 7, 8]
   \<and> empty_cells ''_'' (stateHistory won_game ! 2) = [1, 2, 4, 5, 6, 7, 8]
   \<and> max_value taught_agent (stateHistory won_game ! 2) [5, 6, 7, 8] = 0
   \<and> max_value taught_agent (stateHistory won_game ! 2) [1, 2, 4, 5, 6, 7, 8] = 1
   \<and> getKey (Q taught_agent) (stateHistory won_game ! 0) (actionHistory won_game ! 0)
       = ''_________0''
   \<and> qvalue taught_agent ''_________0''
       + alpha taught_agent
         * (terminalOnly won_game ''X'' (Some 2)
            + discount taught_agent
              * max_value taught_agent (stateHistory won_game ! 2) [1, 2, 4, 5, 6, 7, 8]
            - qvalue taught_agent ''_________0'') = 1
   \<and> QLearningAgent_learn taught_agent won_game terminalOnly (\<lambda>n. 0) 0
       = (None,
          taught_agent\<lparr>Q := [''X__O_____1'' \<mapsto> 1, ''_________0'' \<mapsto> 1 / 2,
               ''X__O_____1'' \<mapsto> 1, ''XX_OO____2'' \<mapsto> 1 / 2,
               ''X________3'' \<mapsto> - (1 / 2), ''XX_O_____4'' \<mapsto> - (1 / 2)]\<rparr>,
          6)
   \<and> play fresh [0, 1, 2, 4, 3, 5, 7, 6, 8] = Inr drawn_game
   \<and> QLearningAgent_learn taught_agent drawn_game terminalOnly (\<lambda>n. 0) 0
       = (Some InvalidActionError, taught_agent\<lparr>epsilon := Some (- 1)\<rparr>, 2)"
proof -
  let ?s2 = "[Str ''X'', Str ''_'', Str ''_'', Str ''O'', Str ''_'', Str ''_'', Str ''_'',
    Str ''_'', Str ''_'']"
  have reach_won: "play fresh [0, 3, 1, 4, 2] = Inr won_game"
    by (simp add: move_def eval_board fresh_def won_game_def)
  have legal: "empty_cells ''_'' (stateHistory won_game ! 2) = [1, 2, 4, 5, 6, 7, 8]"
    by (simp add: empty_cells_def won_game_def)
  have s2: "stateHistory won_game ! 2 = ?s2"
    by (simp add: won_game_def)
  have "map (action_value taught_agent ?s2) [1, 2, 4, 5, 6, 7, 8] = [1, 0, 0, 0, 0, 0, 0]"
    by (simp add: eval_table taught_agent_def)
  then have v: "action_value taught_agent ?s2 1 = 1" "action_value taught_agent ?s2 2 = 0"
    "action_value taught_agent ?s2 4 = 0" "action_value taught_agent ?s2 5 = 0"
    "action_value taught_agent ?s2 6 = 0" "action_value taught_agent ?s2 7 = 0"
    "action_value taught_agent ?s2 8 = 0"
    by simp_all
  have low_max: "max_value taught_agent (stateHistory won_game ! 2) [5, 6, 7, 8] = 0"
    unfolding s2 by (simp add: max_value_def v del: One_nat_def)
  have high_max: "max_value taught_agent (stateHistory won_game ! 2) [1, 2, 4, 5, 6, 7, 8] = 1"
    unfolding s2 by (simp add: max_value_def v del: One_nat_def)
  have key: "getKey (Q taught_agent) (stateHistory won_game ! 0) (actionHistory won_game ! 0)
       = ''_________0''"
    by (simp add: eval_keys won_game_def taught_agent_def)
  have target: "qvalue taught_agent ''_________0''
       + alpha taught_agent
         * (terminalOnly won_game ''X'' (Some 2)
            + discount taught_agent
              * max_value taught_agent (stateHistory won_game ! 2) [1, 2, 4, 5, 6, 7, 8]
            - qvalue taught_agent ''_________0'') = 1"
    unfolding high_max won_game_rewards by (simp add: qvalue_def taught_agent_def)
  have reach_drawn: "play fresh [0, 1, 2, 4, 3, 5, 7, 6, 8] = Inr drawn_game"
    by (simp add: move_def eval_board fresh_def drawn_game_def)
  have thrown: "QLearningAgent_learn taught_agent drawn_game terminalOnly (\<lambda>n. 0) 0
       = (Some InvalidActionError, taught_agent\<lparr>epsilon := Some (- 1)\<rparr>, 2)"
    by (simp add: QLearningAgent_learn_def updateQ_def policy_def eval_board
        getValidActions_def upt_rec drawn_game_def taught_agent_def js_rem_def nth_opt_def
        Let_def)
  from reach_won won_game_valid [of "Some 2"] legal low_max high_max key target won_game_learn
    reach_drawn thrown
  show ?thesis by blast
qed

section \<open>Construction of the learners\<close>

text \<open>
  C6. The constructors of both learners pass the exploration rate to
  \<open>EpsilonGreedyAgent\<close>, which assigns it to \<open>self.epsilon\<close>, the global object's
  property: the constructed agent's own \<open>epsilon\<close> field is left undefined whatever
  rate is given, so the policy of a freshly constructed agent never explores.
\<close>

theorem constructors_leave_epsilon_undefined:
  "epsilon (fst (MonteCarloAgent self p eps disc dq)) = None
   \<and> self_epsilon (snd (MonteCarloAgent self p eps disc dq)) = Some eps
   \<and> epsilon (fst (QLearningAgent self p eps disc al dq)) = None
   \<and> self_epsilon (snd (QLearningAgent self p eps disc al dq)) = Some eps
   \<and> explores (fst (MonteCarloAgent self p eps disc dq)) u = False
   \<and> explores (fst (QLearningAgent self p eps disc al dq)) u = False"
  by (simp add: MonteCarloAgent_def QLearningAgent_def EpsilonGreedyAgent_def Agent_def
      explores_def)

end
